theory Spec2Isabelle
  imports Main
begin

section \<open>Type nodes of \<^verbatim>\<open>lltypes/core.py\<close>\<close>

text \<open>
  The module describes binary data shapes as a tree of type nodes. Every class of the source
  derives from \<^verbatim>\<open>Type\<close>; the datatype below has one constructor per class, and the
  arguments of a constructor are the instance attributes that the class's \<^verbatim>\<open>__init__\<close>
  stores, in the order in which it stores them:
  \<^item> \<^verbatim>\<open>Field\<close>: name, endianness, format;
  \<^item> \<^verbatim>\<open>Struct\<close>: name, fields (the tuple of the remaining positional arguments);
  \<^item> \<^verbatim>\<open>Enum\<close>: name, idx;
  \<^item> \<^verbatim>\<open>Union\<close>: name, tag, options;
  \<^item> \<^verbatim>\<open>Vector\<close>: options only (the width is received and dropped, and no name is stored);
  \<^item> \<^verbatim>\<open>Pointer\<close>: ty;
  \<^item> \<^verbatim>\<open>Sequence\<close>: name, ty, length;
  \<^item> \<^verbatim>\<open>VariableString\<close>: name, ptr, length;
  \<^item> \<^verbatim>\<open>TerminatedString\<close>: name, terminator.
  Names, endianness tags, format codes and terminators are Python byte strings, lengths
  are Python integers. \<open>Field\<close> and \<open>Union\<close> are constants of HOL already, so these two
  constructors carry the suffix \<open>_node\<close>.
\<close>

datatype ty =
    Struct string "ty list"
  | Field_node string string string
  | Enum string ty
  | Union_node string ty "ty list"
  | Vector "ty list"
  | Pointer ty
  | Sequence string ty int
  | VariableString string ty ty
  | TerminatedString string string

text \<open>
  The exceptions of the module carry the node that has no mapping
  (\<^verbatim>\<open>raise NoCtypeMapping(self)\<close>). The others are the built-in exceptions that the
  interpreter and the \<^verbatim>\<open>ctypes\<close> library raise in the code modelled here: a read of
  an attribute that the instance does not have, a subscript of the format table with a key
  that it does not hold, a call with the wrong number of positional arguments, and the
  refusals of the library (\<^verbatim>\<open>TypeError\<close>, \<^verbatim>\<open>ValueError\<close>, \<^verbatim>\<open>OverflowError\<close>
  among them).
\<close>

datatype error =
    NoLlvmMapping ty
  | NoCtypeMapping ty
  | NoDtypeMapping ty
  | AttributeError string
  | KeyError string
  | TypeError
  | ValueError
  | OverflowError

subsection \<open>Attribute reads\<close>

text \<open>
  The string-valued instance attributes of each node, as an association list from the
  attribute's name to its value. \<^verbatim>\<open>Vector.__init__\<close> stores no name and
  \<^verbatim>\<open>Pointer.__init__\<close> stores only the pointee.
\<close>

fun str_attrs :: "ty \<Rightarrow> (string \<times> string) list" where
  "str_attrs (Struct name fields) = [(''name'', name)]"
| "str_attrs (Field_node name endianness format) =
     [(''name'', name), (''endianness'', endianness), (''format'', format)]"
| "str_attrs (Enum name idx) = [(''name'', name)]"
| "str_attrs (Union_node name tag options) = [(''name'', name)]"
| "str_attrs (Vector options) = []"
| "str_attrs (Pointer t) = []"
| "str_attrs (Sequence name t len) = [(''name'', name)]"
| "str_attrs (VariableString name ptr len) = [(''name'', name)]"
| "str_attrs (TerminatedString name terminator) = [(''name'', name), (''terminator'', terminator)]"

text \<open>Reading an attribute that the instance does not have raises \<^verbatim>\<open>AttributeError\<close>.\<close>

definition getattr_str :: "ty \<Rightarrow> string \<Rightarrow> error + string" where
  "getattr_str self a =
     (case map_of (str_attrs self) a of
        None \<Rightarrow> Inl (AttributeError a)
      | Some v \<Rightarrow> Inr v)"

text \<open>
  \<^verbatim>\<open>node.name\<close>. \<^verbatim>\<open>Pointer\<close> defines \<^verbatim>\<open>name\<close> as a property that returns
  \<^verbatim>\<open>self.ty.name\<close>; every other class reads the instance attribute.
\<close>

fun name_of :: "ty \<Rightarrow> error + string" where
  "name_of (Pointer t) = name_of t"
| "name_of self = getattr_str self ''name''"

subsection \<open>Native layouts (\<^verbatim>\<open>to_ctypes\<close>)\<close>

text \<open>
  The values that \<^verbatim>\<open>to_ctypes\<close> returns are types of the \<^verbatim>\<open>ctypes\<close> library: a
  fundamental type (named, as \<^verbatim>\<open>c_ubyte\<close>), a \<^verbatim>\<open>Structure\<close> subclass with its
  \<^verbatim>\<open>__name__\<close> and its \<^verbatim>\<open>_fields_\<close> list of (member name, member type) pairs,
  \<^verbatim>\<open>POINTER(t)\<close>, and the array type \<^verbatim>\<open>t * n\<close>.
\<close>

datatype ctype =
    CSimple string
  | Structure string "(string \<times> ctype) list"
  | POINTER ctype
  | CArray ctype int

text \<open>
  The library is not part of the module, and it refuses some of the constructions that the
  module asks for. What it refuses is a parameter of the model, one function for each
  statement of the module that the library can refuse; \<open>None\<close> means that the library
  accepts:
  \<^item> \<open>class_error members\<close>: the statement
    \<^verbatim>\<open>class struct(ctypes.Structure): _fields_ = members\<close>;
  \<^item> \<open>name_error name\<close>: the assignment \<^verbatim>\<open>struct.__name__ = name\<close>;
  \<^item> \<open>array_error t n\<close>: the product \<^verbatim>\<open>t * n\<close>.
\<close>

datatype ctypes_library =
  Library
    (class_error: "(string \<times> ctype) list \<Rightarrow> error option")
    (name_error: "string \<Rightarrow> error option")
    (array_error: "ctype \<Rightarrow> int \<Rightarrow> error option")

text \<open>
  \<^verbatim>\<open>codes.format_ctypes\<close> belongs to the module \<^verbatim>\<open>codes\<close>, which is not among the
  sources; it is a parameter of the model: a dictionary from format codes to
  \<^verbatim>\<open>ctypes\<close> types. Subscripting a dictionary with a key that it does not hold raises
  \<^verbatim>\<open>KeyError\<close> with the key.
\<close>

type_synonym format_table = "string \<rightharpoonup> ctype"

definition subscript :: "format_table \<Rightarrow> string \<Rightarrow> error + ctype" where
  "subscript d k = (case d k of None \<Rightarrow> Inl (KeyError k) | Some v \<Rightarrow> Inr v)"

text \<open>
  \<^verbatim>\<open>to_ctypes\<close>: \<^verbatim>\<open>Struct\<close>, \<^verbatim>\<open>Field\<close>, \<^verbatim>\<open>Pointer\<close> and \<^verbatim>\<open>Sequence\<close> override the
  method; the other classes inherit \<^verbatim>\<open>Type.to_ctypes\<close>, which raises
  \<^verbatim>\<open>NoCtypeMapping(self)\<close>.

  \<open>fields_to_ctypes\<close> is the list comprehension of \<^verbatim>\<open>Struct.to_ctypes\<close>: for each
  field in turn it reads \<^verbatim>\<open>field.name\<close>, then calls \<^verbatim>\<open>field.to_ctypes()\<close>, and the
  first exception ends the comprehension. \<^verbatim>\<open>Struct.to_ctypes\<close> evaluates the
  comprehension in the body of the class statement, then the library creates the class from
  the list, then the method assigns the struct's name to the class; each of the three steps
  can raise. \<^verbatim>\<open>Sequence.to_ctypes\<close> compiles the element type, then multiplies it by the
  length.
\<close>

fun to_ctypes :: "ctypes_library \<Rightarrow> format_table \<Rightarrow> ty \<Rightarrow> error + ctype"
  and fields_to_ctypes ::
    "ctypes_library \<Rightarrow> format_table \<Rightarrow> ty list \<Rightarrow> error + (string \<times> ctype) list" where
  "to_ctypes lib format_ctypes (Struct name fields) =
     (case fields_to_ctypes lib format_ctypes fields of
        Inl e \<Rightarrow> Inl e
      | Inr members \<Rightarrow>
          (case class_error lib members of
             Some e \<Rightarrow> Inl e
           | None \<Rightarrow>
               (case name_error lib name of
                  Some e \<Rightarrow> Inl e
                | None \<Rightarrow> Inr (Structure name members))))"
| "to_ctypes lib format_ctypes (Field_node name endianness format) =
     (case getattr_str (Field_node name endianness format) ''format'' of
        Inl e \<Rightarrow> Inl e
      | Inr k \<Rightarrow> subscript format_ctypes k)"
| "to_ctypes lib format_ctypes (Pointer t) =
     (case to_ctypes lib format_ctypes t of
        Inl e \<Rightarrow> Inl e
      | Inr c \<Rightarrow> Inr (POINTER c))"
| "to_ctypes lib format_ctypes (Sequence name t len) =
     (case to_ctypes lib format_ctypes t of
        Inl e \<Rightarrow> Inl e
      | Inr c \<Rightarrow>
          (case array_error lib c len of
             Some e \<Rightarrow> Inl e
           | None \<Rightarrow> Inr (CArray c len)))"
| "to_ctypes lib format_ctypes (Enum name idx) = Inl (NoCtypeMapping (Enum name idx))"
| "to_ctypes lib format_ctypes (Union_node name tag options) =
     Inl (NoCtypeMapping (Union_node name tag options))"
| "to_ctypes lib format_ctypes (Vector options) = Inl (NoCtypeMapping (Vector options))"
| "to_ctypes lib format_ctypes (VariableString name ptr len) =
     Inl (NoCtypeMapping (VariableString name ptr len))"
| "to_ctypes lib format_ctypes (TerminatedString name terminator) =
     Inl (NoCtypeMapping (TerminatedString name terminator))"
| "fields_to_ctypes lib format_ctypes [] = Inr []"
| "fields_to_ctypes lib format_ctypes (field # rest) =
     (case name_of field of
        Inl e \<Rightarrow> Inl e
      | Inr n \<Rightarrow>
          (case to_ctypes lib format_ctypes field of
             Inl e \<Rightarrow> Inl e
           | Inr c \<Rightarrow>
               (case fields_to_ctypes lib format_ctypes rest of
                  Inl e \<Rightarrow> Inl e
                | Inr members \<Rightarrow> Inr ((n, c) # members))))"

subsection \<open>Element descriptors (\<^verbatim>\<open>to_dtype\<close>) and compiled handles (\<^verbatim>\<open>to_llvm\<close>)\<close>

text \<open>The value of \<^verbatim>\<open>numpy.dtype(s)\<close> for a type string \<open>s\<close>.\<close>

datatype dtype = Dtype string

text \<open>
  \<^verbatim>\<open>Field.to_dtype\<close> returns \<^verbatim>\<open>numpy.dtype(self.endianess + self.format)\<close>: it reads
  the attribute \<^verbatim>\<open>endianess\<close> (spelled so in the source), then \<^verbatim>\<open>format\<close>, and
  concatenates. The other classes inherit \<^verbatim>\<open>Type.to_dtype\<close>, which raises
  \<^verbatim>\<open>NoDtypeMapping(self)\<close>.
\<close>

fun to_dtype :: "ty \<Rightarrow> error + dtype" where
  "to_dtype (Field_node name endianness format) =
     (case getattr_str (Field_node name endianness format) ''endianess'' of
        Inl e \<Rightarrow> Inl e
      | Inr en \<Rightarrow>
          (case getattr_str (Field_node name endianness format) ''format'' of
             Inl e \<Rightarrow> Inl e
           | Inr f \<Rightarrow> Inr (Dtype (en @ f))))"
| "to_dtype self = Inl (NoDtypeMapping self)"

text \<open>No class overrides \<^verbatim>\<open>Type.to_llvm\<close>.\<close>

definition to_llvm :: "ty \<Rightarrow> error + 'a" where
  "to_llvm self = Inl (NoLlvmMapping self)"

section \<open>Field constructors\<close>

text \<open>Big endian integers.\<close>

definition UBInt8 :: "string \<Rightarrow> ty" where
  "UBInt8 name = Field_node name ''>'' ''B''"

definition UBInt16 :: "string \<Rightarrow> ty" where
  "UBInt16 name = Field_node name ''>'' ''H''"

definition UBInt32 :: "string \<Rightarrow> ty" where
  "UBInt32 name = Field_node name ''>'' ''L''"

definition UBInt64 :: "string \<Rightarrow> ty" where
  "UBInt64 name = Field_node name ''>'' ''Q''"

definition SBInt8 :: "string \<Rightarrow> ty" where
  "SBInt8 name = Field_node name ''>'' ''b''"

definition SBInt16 :: "string \<Rightarrow> ty" where
  "SBInt16 name = Field_node name ''>'' ''h''"

definition SBInt32 :: "string \<Rightarrow> ty" where
  "SBInt32 name = Field_node name ''>'' ''l''"

definition SBInt64 :: "string \<Rightarrow> ty" where
  "SBInt64 name = Field_node name ''>'' ''q''"

text \<open>Little endian integers.\<close>

definition ULInt8 :: "string \<Rightarrow> ty" where
  "ULInt8 name = Field_node name ''<'' ''B''"

definition ULInt16 :: "string \<Rightarrow> ty" where
  "ULInt16 name = Field_node name ''<'' ''H''"

definition ULInt32 :: "string \<Rightarrow> ty" where
  "ULInt32 name = Field_node name ''<'' ''L''"

definition ULInt64 :: "string \<Rightarrow> ty" where
  "ULInt64 name = Field_node name ''<'' ''Q''"

definition SLInt8 :: "string \<Rightarrow> ty" where
  "SLInt8 name = Field_node name ''<'' ''b''"

definition SLInt16 :: "string \<Rightarrow> ty" where
  "SLInt16 name = Field_node name ''<'' ''h''"

definition SLInt32 :: "string \<Rightarrow> ty" where
  "SLInt32 name = Field_node name ''<'' ''l''"

definition SLInt64 :: "string \<Rightarrow> ty" where
  "SLInt64 name = Field_node name ''<'' ''q''"

text \<open>Native endian integers.\<close>

definition UNInt8 :: "string \<Rightarrow> ty" where
  "UNInt8 name = Field_node name ''='' ''B''"

definition UNInt16 :: "string \<Rightarrow> ty" where
  "UNInt16 name = Field_node name ''='' ''H''"

definition UNInt32 :: "string \<Rightarrow> ty" where
  "UNInt32 name = Field_node name ''='' ''L''"

definition UNInt64 :: "string \<Rightarrow> ty" where
  "UNInt64 name = Field_node name ''='' ''Q''"

definition SNInt8 :: "string \<Rightarrow> ty" where
  "SNInt8 name = Field_node name ''='' ''b''"

definition SNInt16 :: "string \<Rightarrow> ty" where
  "SNInt16 name = Field_node name ''='' ''h''"

definition SNInt32 :: "string \<Rightarrow> ty" where
  "SNInt32 name = Field_node name ''='' ''l''"

definition SNInt64 :: "string \<Rightarrow> ty" where
  "SNInt64 name = Field_node name ''='' ''q''"

text \<open>IEEE floating point.\<close>

definition BFloat32 :: "string \<Rightarrow> ty" where
  "BFloat32 name = Field_node name ''>'' ''f''"

definition LFloat32 :: "string \<Rightarrow> ty" where
  "LFloat32 name = Field_node name ''<'' ''f''"

definition NFloat32 :: "string \<Rightarrow> ty" where
  "NFloat32 name = Field_node name ''='' ''f''"

definition BFloat64 :: "string \<Rightarrow> ty" where
  "BFloat64 name = Field_node name ''>'' ''d''"

definition LFloat64 :: "string \<Rightarrow> ty" where
  "LFloat64 name = Field_node name ''<'' ''d''"

definition NFloat64 :: "string \<Rightarrow> ty" where
  "NFloat64 name = Field_node name ''='' ''d''"

text \<open>Boolean.\<close>

definition Bool :: "string \<Rightarrow> ty" where
  "Bool name = Field_node name ''='' ''?''"

text \<open>
  The aliases. \<open>Char\<close> is the constructor of HOL's characters, so the alias \<^verbatim>\<open>Char\<close>
  carries the suffix \<open>_field\<close>.
\<close>

definition Byte :: "string \<Rightarrow> ty" where
  "Byte = UBInt8"

definition SChar :: "string \<Rightarrow> ty" where
  "SChar = SLInt8"

definition UChar :: "string \<Rightarrow> ty" where
  "UChar = ULInt8"

definition Char_field :: "string \<Rightarrow> ty" where
  "Char_field = SChar"

text \<open>
  The integer constructors by what their names say: \<^verbatim>\<open>U\<close> or \<^verbatim>\<open>S\<close> for unsigned or
  signed, \<^verbatim>\<open>B\<close>, \<^verbatim>\<open>L\<close> or \<^verbatim>\<open>N\<close> for big, little or native endian (the three sections
  of the source), and the width in bits.
\<close>

datatype signedness = Unsigned | Signed

datatype width = W8 | W16 | W32 | W64

datatype byteorder = Big | Little | Native

fun int_constructor :: "signedness \<Rightarrow> width \<Rightarrow> byteorder \<Rightarrow> string \<Rightarrow> ty" where
  "int_constructor Unsigned W8 Big = UBInt8"
| "int_constructor Unsigned W16 Big = UBInt16"
| "int_constructor Unsigned W32 Big = UBInt32"
| "int_constructor Unsigned W64 Big = UBInt64"
| "int_constructor Signed W8 Big = SBInt8"
| "int_constructor Signed W16 Big = SBInt16"
| "int_constructor Signed W32 Big = SBInt32"
| "int_constructor Signed W64 Big = SBInt64"
| "int_constructor Unsigned W8 Little = ULInt8"
| "int_constructor Unsigned W16 Little = ULInt16"
| "int_constructor Unsigned W32 Little = ULInt32"
| "int_constructor Unsigned W64 Little = ULInt64"
| "int_constructor Signed W8 Little = SLInt8"
| "int_constructor Signed W16 Little = SLInt16"
| "int_constructor Signed W32 Little = SLInt32"
| "int_constructor Signed W64 Little = SLInt64"
| "int_constructor Unsigned W8 Native = UNInt8"
| "int_constructor Unsigned W16 Native = UNInt16"
| "int_constructor Unsigned W32 Native = UNInt32"
| "int_constructor Unsigned W64 Native = UNInt64"
| "int_constructor Signed W8 Native = SNInt8"
| "int_constructor Signed W16 Native = SNInt16"
| "int_constructor Signed W32 Native = SNInt32"
| "int_constructor Signed W64 Native = SNInt64"

definition int_triples :: "(signedness \<times> width \<times> byteorder) list" where
  "int_triples =
     List.product [Unsigned, Signed] (List.product [W8, W16, W32, W64] [Big, Little, Native])"

text \<open>The (endianness, format) pair of a \<^verbatim>\<open>Field\<close>; no other node has one.\<close>

fun endian_format :: "ty \<Rightarrow> (string \<times> string) option" where
  "endian_format (Field_node name endianness format) = Some (endianness, format)"
| "endian_format self = None"

text \<open>
  The functions that the module defines to construct a \<^verbatim>\<open>Field\<close>, in the order of the
  source: the integers, the floating point numbers and the boolean. The aliases are further
  names of three of these functions, not functions of their own.
\<close>

definition field_constructors :: "(string \<Rightarrow> ty) list" where
  "field_constructors =
     [UBInt8, UBInt16, UBInt32, UBInt64, SBInt8, SBInt16, SBInt32, SBInt64,
      ULInt8, ULInt16, ULInt32, ULInt64, SLInt8, SLInt16, SLInt32, SLInt64,
      UNInt8, UNInt16, UNInt32, UNInt64, SNInt8, SNInt16, SNInt32, SNInt64,
      BFloat32, LFloat32, NFloat32, BFloat64, LFloat64, NFloat64, Bool]"

section \<open>Constructor calls\<close>

text \<open>
  \<^verbatim>\<open>Enum(name, **kw)\<close> stores the name and an index field \<^verbatim>\<open>Byte(name)\<close>; the keyword
  arguments are not used. \<^verbatim>\<open>Vector(width, options)\<close> stores the options only.
\<close>

definition Enum_call :: "string \<Rightarrow> ty" where
  "Enum_call name = Enum name (Byte name)"

definition Vector_call :: "int \<Rightarrow> ty list \<Rightarrow> ty" where
  "Vector_call width options = Vector options"

text \<open>
  The string helpers call \<^verbatim>\<open>Sequence\<close> and \<^verbatim>\<open>TerminatedString\<close> with arguments that
  are not those of the data model, so these two calls are modelled on the list of the
  positional arguments. The values that the module passes are strings, integers, type
  nodes, and (in \<^verbatim>\<open>FixedString\<close>) a field constructor.
\<close>

datatype pyarg =
    ArgStr string
  | ArgInt int
  | ArgType ty
  | ArgFun "string \<Rightarrow> ty"

text \<open>
  An instance as \<^verbatim>\<open>__init__\<close> leaves it: its class and the attributes stored, whatever
  the values are.
\<close>

datatype py_instance = Instance string "(string \<times> pyarg) list"

text \<open>
  A call \<^verbatim>\<open>Sequence(a1, ..., ak)\<close> binds the positional arguments to the parameters
  \<^verbatim>\<open>name, ty, length\<close> of \<^verbatim>\<open>Sequence.__init__\<close>, which stores the three values as
  they are; with any other number of arguments the interpreter raises \<^verbatim>\<open>TypeError\<close>
  before the body runs. Likewise \<^verbatim>\<open>TerminatedString.__init__\<close> has the parameters
  \<^verbatim>\<open>name, terminator\<close>.
\<close>

fun Sequence_call :: "pyarg list \<Rightarrow> error + py_instance" where
  "Sequence_call [name, t, len] =
     Inr (Instance ''Sequence'' [(''name'', name), (''ty'', t), (''length'', len)])"
| "Sequence_call args = Inl TypeError"

fun TerminatedString_call :: "pyarg list \<Rightarrow> error + py_instance" where
  "TerminatedString_call [name, terminator] =
     Inr (Instance ''TerminatedString'' [(''name'', name), (''terminator'', terminator)])"
| "TerminatedString_call args = Inl TypeError"

text \<open>
  The nodes of the two classes, as instances. A call with a string, a type node and an
  integer (with two strings) returns the instance of the node that the constructor of the
  datatype builds from the same values (lemmas \<open>Sequence_call_node\<close> and
  \<open>TerminatedString_call_node\<close> below), so such a call is written with the constructor.
\<close>

fun instance_of :: "ty \<Rightarrow> py_instance option" where
  "instance_of (Sequence name t len) =
     Some (Instance ''Sequence''
       [(''name'', ArgStr name), (''ty'', ArgType t), (''length'', ArgInt len)])"
| "instance_of (TerminatedString name terminator) =
     Some (Instance ''TerminatedString''
       [(''name'', ArgStr name), (''terminator'', ArgStr terminator)])"
| "instance_of self = None"

subsection \<open>Strings\<close>

text \<open>
  \<^verbatim>\<open>FixedString(length)\<close> returns \<^verbatim>\<open>Sequence(Char, length)\<close> and \<^verbatim>\<open>CString()\<close>
  returns \<^verbatim>\<open>TerminatedString('0x00')\<close>, a string of the four characters
  \<^verbatim>\<open>0\<close>, \<^verbatim>\<open>x\<close>, \<^verbatim>\<open>0\<close>, \<^verbatim>\<open>0\<close>.
\<close>

definition FixedString :: "int \<Rightarrow> error + py_instance" where
  "FixedString len = Sequence_call [ArgFun Char_field, ArgInt len]"

definition CString :: "error + py_instance" where
  "CString = TerminatedString_call [ArgStr ''0x00'']"

subsection \<open>Array descriptors\<close>

text \<open>
  The three builders take a name, a field constructor \<^verbatim>\<open>ty\<close> and the number of
  dimensions \<^verbatim>\<open>nd\<close>, and return a \<^verbatim>\<open>Struct\<close> of a pointer to \<^verbatim>\<open>ty('data')\<close> and
  of sequences of \<^verbatim>\<open>UNInt8('')\<close> cells. Their calls of \<^verbatim>\<open>Sequence\<close> pass a string, a
  type node and an integer.
\<close>

definition Array_C :: "string \<Rightarrow> (string \<Rightarrow> ty) \<Rightarrow> int \<Rightarrow> ty" where
  "Array_C name ty nd =
     Struct ''Array_C''
       [Pointer (ty ''data''),
        Sequence ''shape'' (UNInt8 '''') nd]"

definition Array_F :: "string \<Rightarrow> (string \<Rightarrow> ty) \<Rightarrow> int \<Rightarrow> ty" where
  "Array_F name ty nd =
     Struct ''Array_F''
       [Pointer (ty ''data''),
        Sequence ''shape'' (UNInt8 '''') nd]"

definition Array_S :: "string \<Rightarrow> (string \<Rightarrow> ty) \<Rightarrow> int \<Rightarrow> ty" where
  "Array_S name ty nd =
     Struct ''Array_S''
       [Pointer (ty ''data''),
        Sequence ''shape'' (UNInt8 '''') nd,
        Sequence ''stride'' (UNInt8 '''') nd]"

subsection \<open>A format table and a library for the examples\<close>

text \<open>
  An instance of the format table, used where a theorem is applied to a concrete input:
  the unsigned and signed one-byte codes and the unsigned two-byte code.
\<close>

definition example_format_ctypes :: format_table where
  "example_format_ctypes =
     [''B'' \<mapsto> CSimple ''c_ubyte'', ''b'' \<mapsto> CSimple ''c_byte'', ''H'' \<mapsto> CSimple ''c_ushort'']"

text \<open>
  An instance of the library, used in the same places. It has four refusals of CPython's
  \<^verbatim>\<open>ctypes\<close> on a 64-bit platform: a member named \<^verbatim>\<open>_fields_\<close> (\<^verbatim>\<open>TypeError\<close>), a
  class name that contains a null character (\<^verbatim>\<open>ValueError\<close>), a negative array length
  (\<^verbatim>\<open>ValueError\<close>) and an array length of \<open>2 ^ 63\<close> or more (\<^verbatim>\<open>OverflowError\<close>). The
  library refuses more than these four (other member names that the class reserves, arrays
  whose size in bytes is too large); no general statement below depends on this instance,
  they hold for every library.
\<close>

definition example_ctypes :: ctypes_library where
  "example_ctypes =
     Library
       (\<lambda>members. if ''_fields_'' \<in> set (map fst members) then Some TypeError else None)
       (\<lambda>name. if CHR 0x00 \<in> set name then Some ValueError else None)
       (\<lambda>t n. if n < 0 then Some ValueError
              else if 2 ^ 63 \<le> n then Some OverflowError
              else None)"

section \<open>Calls with the arguments of the data model\<close>

lemma Sequence_call_node:
  "map_option Inr (instance_of (Sequence name t len))
     = Some (Sequence_call [ArgStr name, ArgType t, ArgInt len])"
  by simp

lemma TerminatedString_call_node:
  "map_option Inr (instance_of (TerminatedString name terminator))
     = Some (TerminatedString_call [ArgStr name, ArgStr terminator])"
  by simp

section \<open>Order and names of the members of a compiled \<^verbatim>\<open>Struct\<close>\<close>

text \<open>
  A node that compiles has a name: the classes that override \<^verbatim>\<open>to_ctypes\<close> store one,
  and a pointer compiles only if its pointee does.
\<close>

lemma compiled_has_name:
  "to_ctypes lib format_ctypes t = Inr c \<Longrightarrow> \<exists>n. name_of t = Inr n"
  by (induction t arbitrary: c) (auto simp: getattr_str_def split: sum.splits)

text \<open>
  When every field compiles, the comprehension returns the pairs of the fields' names and
  layouts, in the order of the fields.
\<close>

lemma fields_to_ctypes_zip:
  "map (to_ctypes lib format_ctypes) fields = map Inr layouts \<Longrightarrow>
   \<exists>names. map name_of fields = map Inr names
     \<and> fields_to_ctypes lib format_ctypes fields = Inr (zip names layouts)"
proof (induction fields arbitrary: layouts)
  case Nil
  then show ?case by simp
next
  case (Cons f fields)
  from Cons.prems obtain c rest where
    layouts: "layouts = c # rest" and
    c: "to_ctypes lib format_ctypes f = Inr c" and
    rest: "map (to_ctypes lib format_ctypes) fields = map Inr rest"
    by (cases layouts) auto
  from c obtain n where n: "name_of f = Inr n"
    using compiled_has_name by blast
  from Cons.IH [OF rest] obtain names where
    names: "map name_of fields = map Inr names" and
    members: "fields_to_ctypes lib format_ctypes fields = Inr (zip names rest)"
    by blast
  have "map name_of (f # fields) = map Inr (n # names)"
    using n names by simp
  moreover
  have "fields_to_ctypes lib format_ctypes (f # fields) = Inr (zip (n # names) layouts)"
    using n c members layouts by simp
  ultimately show ?case by blast
qed

text \<open>
  Claim C1, as stated, fails: the fields of a \<^verbatim>\<open>Struct\<close> can each compile and the
  library still refuse the structure. In the example library, the field
  \<^verbatim>\<open>UNInt8('_fields_')\<close> compiles, and the struct of this one field raises the
  \<^verbatim>\<open>TypeError\<close> of the class statement; the struct without fields whose name is the
  null character raises the \<^verbatim>\<open>ValueError\<close> of the assignment to \<^verbatim>\<open>__name__\<close>.
\<close>

theorem Struct_to_ctypes_refused_counterexample:
  "to_ctypes example_ctypes example_format_ctypes (UNInt8 ''_fields_'')
     = Inr (CSimple ''c_ubyte'')
   \<and> to_ctypes example_ctypes example_format_ctypes (Struct ''s'' [UNInt8 ''_fields_''])
     = Inl TypeError
   \<and> to_ctypes example_ctypes example_format_ctypes (Struct [CHR 0x00] [])
     = Inl ValueError"
  by (simp add: UNInt8_def example_ctypes_def example_format_ctypes_def
      getattr_str_def subscript_def)

text \<open>
  Claim C1, amended. For every \<^verbatim>\<open>Struct\<close> whose fields each compile, \<^verbatim>\<open>to_ctypes\<close>
  builds one member per field, in the declared order: the identifier of the \<open>i\<close>-th member
  is the name of the \<open>i\<close>-th field, and its layout is what the \<open>i\<close>-th field compiles to;
  nothing is reordered, merged or dropped. It returns the structure of exactly these
  members, carrying the struct's name, unless the library refuses the member list or the
  name; then it raises the library's refusal.
\<close>

theorem Struct_to_ctypes_declared_order:
  assumes "map (to_ctypes lib format_ctypes) fields = map Inr layouts"
  shows "\<exists>names. map name_of fields = map Inr names
    \<and> to_ctypes lib format_ctypes (Struct name fields) =
        (case class_error lib (zip names layouts) of
           Some e \<Rightarrow> Inl e
         | None \<Rightarrow>
             (case name_error lib name of
                Some e \<Rightarrow> Inl e
              | None \<Rightarrow> Inr (Structure name (zip names layouts))))"
proof -
  from fields_to_ctypes_zip [OF assms] obtain names where
    names: "map name_of fields = map Inr names" and
    members: "fields_to_ctypes lib format_ctypes fields = Inr (zip names layouts)"
    by blast
  from members have
    "to_ctypes lib format_ctypes (Struct name fields) =
       (case class_error lib (zip names layouts) of
          Some e \<Rightarrow> Inl e
        | None \<Rightarrow>
            (case name_error lib name of
               Some e \<Rightarrow> Inl e
             | None \<Rightarrow> Inr (Structure name (zip names layouts))))"
    by simp
  with names show ?thesis by blast
qed

theorem Struct_to_ctypes_declared_order_witness:
  "map (to_ctypes example_ctypes example_format_ctypes)
     [UNInt8 ''a'', Pointer (SLInt8 ''b''), Sequence ''c'' (UBInt16 ''d'') 3]
   = map Inr [CSimple ''c_ubyte'', POINTER (CSimple ''c_byte''), CArray (CSimple ''c_ushort'') 3]
   \<and> (\<exists>names.
        map name_of [UNInt8 ''a'', Pointer (SLInt8 ''b''), Sequence ''c'' (UBInt16 ''d'') 3]
        = map Inr names
      \<and> to_ctypes example_ctypes example_format_ctypes
          (Struct ''s'' [UNInt8 ''a'', Pointer (SLInt8 ''b''), Sequence ''c'' (UBInt16 ''d'') 3])
        = (case class_error example_ctypes
                 (zip names
                    [CSimple ''c_ubyte'', POINTER (CSimple ''c_byte''),
                     CArray (CSimple ''c_ushort'') 3]) of
             Some e \<Rightarrow> Inl e
           | None \<Rightarrow>
               (case name_error example_ctypes ''s'' of
                  Some e \<Rightarrow> Inl e
                | None \<Rightarrow>
                    Inr (Structure ''s''
                      (zip names
                         [CSimple ''c_ubyte'', POINTER (CSimple ''c_byte''),
                          CArray (CSimple ''c_ushort'') 3])))))"
proof -
  have compiles:
    "map (to_ctypes example_ctypes example_format_ctypes)
       [UNInt8 ''a'', Pointer (SLInt8 ''b''), Sequence ''c'' (UBInt16 ''d'') 3]
     = map Inr [CSimple ''c_ubyte'', POINTER (CSimple ''c_byte''),
         CArray (CSimple ''c_ushort'') 3]"
    by (simp add: UNInt8_def SLInt8_def UBInt16_def example_ctypes_def
        example_format_ctypes_def getattr_str_def subscript_def)
  from Struct_to_ctypes_declared_order [OF compiles, of "''s''"] compiles
  show ?thesis by blast
qed

text \<open>The same input, evaluated: the three members, in the order of the three fields.\<close>

lemma Struct_to_ctypes_example:
  "to_ctypes example_ctypes example_format_ctypes
     (Struct ''s'' [UNInt8 ''a'', Pointer (SLInt8 ''b''), Sequence ''c'' (UBInt16 ''d'') 3])
   = Inr (Structure ''s''
       [(''a'', CSimple ''c_ubyte''), (''b'', POINTER (CSimple ''c_byte'')),
        (''c'', CArray (CSimple ''c_ushort'') 3)])"
  by (simp add: UNInt8_def SLInt8_def UBInt16_def example_ctypes_def
      example_format_ctypes_def getattr_str_def subscript_def)

text \<open>
  A field without a name ends the comprehension at the read of \<^verbatim>\<open>field.name\<close>, before
  its own \<^verbatim>\<open>to_ctypes\<close> is called.
\<close>

lemma Struct_with_Vector_field:
  "to_ctypes lib format_ctypes (Struct name [Vector options]) = Inl (AttributeError ''name'')"
  by (simp add: getattr_str_def)

text \<open>
  A \<^verbatim>\<open>Sequence\<close> whose element compiles returns the array of its length, unless the
  library refuses the product; the example library refuses a negative length and a length
  that does not fit the platform's index type.
\<close>

lemma Sequence_to_ctypes:
  "to_ctypes lib format_ctypes t = Inr c \<Longrightarrow>
   to_ctypes lib format_ctypes (Sequence name t len) =
     (case array_error lib c len of Some e \<Rightarrow> Inl e | None \<Rightarrow> Inr (CArray c len))"
  by simp

lemma Sequence_to_ctypes_refused_examples:
  "to_ctypes example_ctypes example_format_ctypes (Sequence ''c'' (UNInt8 ''d'') (- 1))
     = Inl ValueError
   \<and> to_ctypes example_ctypes example_format_ctypes (Sequence ''c'' (UNInt8 ''d'') (2 ^ 64))
     = Inl OverflowError
   \<and> to_ctypes example_ctypes example_format_ctypes (Sequence ''c'' (UNInt8 ''d'') 0)
     = Inr (CArray (CSimple ''c_ubyte'') 0)"
  by (simp add: UNInt8_def example_ctypes_def example_format_ctypes_def
      getattr_str_def subscript_def)

section \<open>The layout of a \<^verbatim>\<open>Field\<close>\<close>

text \<open>
  Claim C2, as stated, fails: a \<^verbatim>\<open>Field\<close> whose format code the table does not hold
  raises the \<^verbatim>\<open>KeyError\<close> of the subscript, not \<^verbatim>\<open>NoCtypeMapping\<close>. In the example
  table the code \<^verbatim>\<open>z\<close> is absent.
\<close>

theorem Field_to_ctypes_absent_code_counterexample:
  "example_format_ctypes ''z'' = None
   \<and> to_ctypes example_ctypes example_format_ctypes (Field_node ''x'' ''<'' ''z'')
       = Inl (KeyError ''z'')
   \<and> to_ctypes example_ctypes example_format_ctypes (Field_node ''x'' ''<'' ''z'')
       \<noteq> Inl (NoCtypeMapping (Field_node ''x'' ''<'' ''z''))"
  by (simp add: example_format_ctypes_def getattr_str_def subscript_def)

text \<open>
  Claim C2, amended. For every \<^verbatim>\<open>Field\<close>, \<^verbatim>\<open>to_ctypes\<close> subscripts the format table
  with the field's format code: when the code is absent it fails with \<^verbatim>\<open>KeyError\<close>
  carrying the code, and when the code is present it returns the entry that the table holds
  for it.
\<close>

theorem Field_to_ctypes_subscript:
  "to_ctypes lib format_ctypes (Field_node name endianness format) =
     (case format_ctypes format of
        None \<Rightarrow> Inl (KeyError format)
      | Some c \<Rightarrow> Inr c)"
  by (simp add: getattr_str_def subscript_def)

section \<open>String helpers\<close>

lemma FixedString_always_raises: "FixedString len = Inl TypeError"
  by (simp add: FixedString_def)

text \<open>
  Claim C3. \<^verbatim>\<open>FixedString(n)\<close> is meant to return a \<^verbatim>\<open>Sequence\<close> of \<open>n\<close> character
  cells. The source calls \<^verbatim>\<open>Sequence(Char, length)\<close> with two arguments where
  \<^verbatim>\<open>Sequence.__init__\<close> takes three, so the call raises \<^verbatim>\<open>TypeError\<close> and no node is
  returned; here at \<open>n = 5\<close>.
\<close>

theorem FixedString_raises: "FixedString 5 = Inl TypeError"
  by (simp add: FixedString_def)

text \<open>
  Claim C4. \<^verbatim>\<open>CString()\<close> is meant to return a \<^verbatim>\<open>TerminatedString\<close> whose terminator
  is the null byte. The source calls \<^verbatim>\<open>TerminatedString('0x00')\<close> with one argument
  where \<^verbatim>\<open>TerminatedString.__init__\<close> takes two, so the call raises \<^verbatim>\<open>TypeError\<close>
  and no node is returned.
\<close>

theorem CString_raises: "CString = Inl TypeError"
  by (simp add: CString_def)

section \<open>Element descriptors\<close>

lemma Field_to_dtype_always_raises:
  "to_dtype (Field_node name endianness format) = Inl (AttributeError ''endianess'')"
  by (simp add: getattr_str_def)

lemma to_dtype_other_variants:
  "endian_format t = None \<Longrightarrow> to_dtype t = Inl (NoDtypeMapping t)"
  by (cases t) simp_all

text \<open>
  Claim C5. \<^verbatim>\<open>to_dtype\<close> of a \<^verbatim>\<open>Field\<close> is meant to return the element descriptor of
  the field's endianness and format code. The method reads \<^verbatim>\<open>self.endianess\<close>, an
  attribute that \<^verbatim>\<open>Field.__init__\<close> never stores (it stores \<^verbatim>\<open>endianness\<close>), so the
  call raises \<^verbatim>\<open>AttributeError\<close>; here for the little-endian unsigned byte named
  \<^verbatim>\<open>x\<close>.
\<close>

theorem Field_to_dtype_raises:
  "to_dtype (Field_node ''x'' ''<'' ''B'') = Inl (AttributeError ''endianess'')"
  by (simp add: getattr_str_def)

section \<open>Nodes without a native layout\<close>

text \<open>
  Claim C6. For every \<^verbatim>\<open>Enum\<close>, \<^verbatim>\<open>Union\<close>, \<^verbatim>\<open>Vector\<close>, \<^verbatim>\<open>VariableString\<close> and
  \<^verbatim>\<open>TerminatedString\<close> node, \<^verbatim>\<open>to_ctypes\<close> fails with \<^verbatim>\<open>NoCtypeMapping\<close>,
  carrying the node itself, whatever the format table and the library.
\<close>

theorem no_native_layout_by_default:
  "to_ctypes lib format_ctypes (Enum name idx) = Inl (NoCtypeMapping (Enum name idx))
   \<and> to_ctypes lib format_ctypes (Union_node name tag options)
       = Inl (NoCtypeMapping (Union_node name tag options))
   \<and> to_ctypes lib format_ctypes (Vector options) = Inl (NoCtypeMapping (Vector options))
   \<and> to_ctypes lib format_ctypes (VariableString name ptr len)
       = Inl (NoCtypeMapping (VariableString name ptr len))
   \<and> to_ctypes lib format_ctypes (TerminatedString name terminator)
       = Inl (NoCtypeMapping (TerminatedString name terminator))"
  by simp

section \<open>Pointer transparency\<close>

text \<open>
  Claim C7. For every type node \<open>t\<close>, the name of \<^verbatim>\<open>Pointer(t)\<close> is the name of \<open>t\<close>:
  reading \<^verbatim>\<open>name\<close> on the pointer gives exactly what reading it on the pointee gives
  (the same string, or the same \<^verbatim>\<open>AttributeError\<close> when the pointee has no name).
\<close>

theorem Pointer_name_transparent: "name_of (Pointer t) = name_of t"
  by simp

section \<open>The integer field constructors\<close>

lemmas int_field_defs =
  UBInt8_def UBInt16_def UBInt32_def UBInt64_def SBInt8_def SBInt16_def SBInt32_def SBInt64_def
  ULInt8_def ULInt16_def ULInt32_def ULInt64_def SLInt8_def SLInt16_def SLInt32_def SLInt64_def
  UNInt8_def UNInt16_def UNInt32_def UNInt64_def SNInt8_def SNInt16_def SNInt32_def SNInt64_def

lemma int_triples_complete: "set int_triples = UNIV"
proof -
  have "(s, w, b) \<in> set int_triples" for s w b
    by (cases s; cases w; cases b) (simp_all add: int_triples_def)
  then show ?thesis by auto
qed

lemmas other_field_defs =
  BFloat32_def LFloat32_def NFloat32_def BFloat64_def LFloat64_def NFloat64_def Bool_def

text \<open>
  Claim C8. There are 24 triples of signedness, width and byte order. For each of them the
  source defines a constructor, which returns a \<^verbatim>\<open>Field\<close>; the 24 (endianness, format)
  pairs are pairwise distinct, whatever the name passed; and no other field constructor of
  the module shares a pair with one of them, since the pairs of all the field constructors
  that the module defines are pairwise distinct. So each triple has exactly one constructor.
\<close>

theorem int_constructors_exhaustive_distinct:
  "length int_triples = 24
   \<and> set int_triples = UNIV
   \<and> list_all (\<lambda>(s, w, b). int_constructor s w b \<in> set field_constructors) int_triples
   \<and> None \<notin> set (map (\<lambda>(s, w, b). endian_format (int_constructor s w b name)) int_triples)
   \<and> distinct (map (\<lambda>(s, w, b). endian_format (int_constructor s w b name)) int_triples)
   \<and> distinct (map (\<lambda>c. endian_format (c name)) field_constructors)"
proof -
  have "length int_triples = 24"
    by (simp add: int_triples_def)
  moreover
  have "list_all (\<lambda>(s, w, b). int_constructor s w b \<in> set field_constructors) int_triples"
    by (simp add: field_constructors_def int_triples_def)
  moreover
  have "None \<notin> set (map (\<lambda>(s, w, b). endian_format (int_constructor s w b name)) int_triples)"
    by (simp add: int_triples_def int_field_defs)
  moreover
  have "distinct (map (\<lambda>(s, w, b). endian_format (int_constructor s w b name)) int_triples)"
    by (simp add: int_triples_def int_field_defs)
  moreover
  have "distinct (map (\<lambda>c. endian_format (c name)) field_constructors)"
    by (simp add: field_constructors_def int_field_defs other_field_defs)
  ultimately show ?thesis
    using int_triples_complete by simp
qed

section \<open>The array builders\<close>

text \<open>
  Claim C9. For every name, field constructor \<open>ty\<close> and number of dimensions \<open>nd\<close>
  (non-negative or not), \<^verbatim>\<open>Array_C\<close> returns a \<^verbatim>\<open>Struct\<close> of exactly two fields: a
  \<^verbatim>\<open>Pointer\<close> to \<^verbatim>\<open>ty('data')\<close>, then a \<^verbatim>\<open>Sequence\<close> named \<^verbatim>\<open>shape\<close> of length
  \<open>nd\<close> whose cell is the field with the empty name, the native endianness tag \<^verbatim>\<open>=\<close>
  and the format code \<^verbatim>\<open>B\<close>. \<^verbatim>\<open>Array_S\<close> returns the same two fields and a third, a
  \<^verbatim>\<open>Sequence\<close> named \<^verbatim>\<open>stride\<close> of the same length and cell. This cell is what the
  constructor of the unsigned 8-bit native-endian integers returns for the empty name.
\<close>

theorem Array_builders_fields:
  "Array_C name ty nd =
     Struct ''Array_C''
       [Pointer (ty ''data''),
        Sequence ''shape'' (Field_node '''' ''='' ''B'') nd]
   \<and> Array_S name ty nd =
     Struct ''Array_S''
       [Pointer (ty ''data''),
        Sequence ''shape'' (Field_node '''' ''='' ''B'') nd,
        Sequence ''stride'' (Field_node '''' ''='' ''B'') nd]
   \<and> int_constructor Unsigned W8 Native '''' = Field_node '''' ''='' ''B''"
  by (simp add: Array_C_def Array_S_def UNInt8_def)

text \<open>
  Claim C10. The builders do not use the name they are given: for all arguments, the node
  that \<^verbatim>\<open>Array_C\<close>, \<^verbatim>\<open>Array_F\<close> and \<^verbatim>\<open>Array_S\<close> return is named \<^verbatim>\<open>Array_C\<close>,
  \<^verbatim>\<open>Array_F\<close> and \<^verbatim>\<open>Array_S\<close> respectively.
\<close>

theorem Array_builders_ignore_name:
  "name_of (Array_C name ty nd) = Inr ''Array_C''
   \<and> name_of (Array_F name ty nd) = Inr ''Array_F''
   \<and> name_of (Array_S name ty nd) = Inr ''Array_S''"
  by (simp add: Array_C_def Array_F_def Array_S_def getattr_str_def)

end
